theory Spec2Isabelle
  imports Complex_Main
begin

section \<open>Data model\<close>

text \<open>
  The service stores its documents in MongoDB collections through Mongoose schemas
  (\<^verbatim>\<open>models/*.js\<close>). A collection is modelled as the list of its documents in insertion
  order, an ObjectId as a natural number, a \<^verbatim>\<open>Date\<close> as the integer number of
  milliseconds since the epoch. The copy counts of a book are \<^verbatim>\<open>Number\<close> fields with
  \<^verbatim>\<open>min: 0\<close> and no integer validator, and the routes that update them validate nothing, so
  they are real numbers; fine amounts (whole currency units where \<^verbatim>\<open>returnBook\<close> computes
  them) and priorities are integers. Optional schema fields are \<open>option\<close> values. Every controller reads the clock with \<^verbatim>\<open>new Date()\<close>; the
  model receives that reading as the argument \<open>now\<close>.
\<close>

type_synonym oid = nat
type_synonym date = int

datatype role = Admin | Librarian | Borrower

datatype user_status = UserActive | UserInactive

record user =
  u_id :: oid
  u_role :: role
  u_status :: user_status

datatype book_status = Available | Unavailable | Maintenance

record book =
  b_id :: oid
  totalCopies :: real
  availableCopies :: real
  b_status :: book_status
  b_updatedAt :: date

datatype transaction_status = Issued | Returned | Overdue | Lost

record transaction =
  t_id :: oid
  t_userId :: oid
  t_bookId :: oid
  t_issueDate :: date
  t_dueDate :: date
  t_returnDate :: "date option"
  t_fineAmount :: int
  t_status :: transaction_status
  t_issuedBy :: oid
  t_returnedBy :: "oid option"
  t_notes :: "string option"
  t_createdAt :: date
  t_updatedAt :: date

datatype fine_reason = ReasonOverdue | ReasonDamage | ReasonLost | ReasonOther

datatype payment_status = Pending | Paid | Waived

datatype payment_method = Cash | Card | Online | Check

record fine =
  f_id :: oid
  f_userId :: oid
  f_transactionId :: oid
  f_amount :: int
  f_reason :: fine_reason
  f_paymentStatus :: payment_status
  f_paymentDate :: "date option"
  f_paymentMethod :: "payment_method option"
  f_processedBy :: "oid option"
  f_notes :: "string option"
  f_createdAt :: date
  f_updatedAt :: date

datatype reservation_status = Active | Fulfilled | Expired | Cancelled

record reservation =
  r_id :: oid
  r_userId :: oid
  r_bookId :: oid
  r_reservationDate :: date
  r_expiryDate :: date
  r_status :: reservation_status
  r_priority :: int
  r_notificationSent :: bool
  r_fulfilledBy :: "oid option"
  r_fulfilledDate :: "date option"
  r_notes :: "string option"
  r_createdAt :: date
  r_updatedAt :: date

record db =
  users :: "user list"
  books :: "book list"
  transactions :: "transaction list"
  fines :: "fine list"
  reservations :: "reservation list"

text \<open>
  What a handler answers. A handler either sends one of its own \<^verbatim>\<open>success: false\<close>
  responses (one constructor per message of the source), or an exception escapes it to
  \<^verbatim>\<open>asyncHandler\<close>: a Mongoose validation failure raised by \<^verbatim>\<open>save\<close>/\<^verbatim>\<open>create\<close>, or
  a \<^verbatim>\<open>TypeError\<close> from reading a property of \<^verbatim>\<open>null\<close>.
\<close>

datatype error =
    UserNotFound
  | UserNotActive
  | BookNotFound
  | BookNotAvailable
  | AlreadyIssued
  | BorrowingLimitReached int
  | OutstandingFines
  | TransactionNotFound
  | NotCurrentlyIssued
  | OnlyIssuedCanBeExtended
  | FineNotFound
  | FineAlreadyPaid
  | FineHasBeenWaived
  | CannotWaivePaidFine
  | FineAlreadyWaived
  | CannotUpdatePaidFine
  | CannotDeletePaidFine
  | BookCurrentlyAvailable
  | AlreadyReserved
  | CurrentlyHoldsBook
  | ReservationLimitReached int
  | ReservationNotFound
  | AccessDenied
  | OnlyActiveCanBeCancelled
  | OnlyActiveCanBeFulfilled
  | BookNotAvailableYet
  | ValidationError
  | TypeError

subsection \<open>Collections\<close>

text \<open>
  \<^verbatim>\<open>Model.findById\<close>, the write of \<^verbatim>\<open>doc.save()\<close> (the stored document with that id is
  replaced), and the id of a created document, which MongoDB guarantees to differ from
  every id in the collection.
\<close>

definition findById :: "('a \<Rightarrow> oid) \<Rightarrow> 'a list \<Rightarrow> oid \<Rightarrow> 'a option" where
  "findById ident xs i = find (\<lambda>d. ident d = i) xs"

definition store :: "('a \<Rightarrow> oid) \<Rightarrow> 'a \<Rightarrow> 'a list \<Rightarrow> 'a list" where
  "store ident d xs = map (\<lambda>x. if ident x = ident d then d else x) xs"

definition fresh_id :: "('a \<Rightarrow> oid) \<Rightarrow> 'a list \<Rightarrow> oid" where
  "fresh_id ident xs = Suc (fold max (map ident xs) 0)"

text \<open>
  The \<^verbatim>\<open>trim: true\<close> setter of the \<^verbatim>\<open>notes\<close> fields: leading and trailing white space
  (the ASCII part of what \<^verbatim>\<open>String.prototype.trim\<close> removes) is dropped when a string is
  assigned.
\<close>

definition is_space :: "char \<Rightarrow> bool" where
  "is_space c = (c \<in> set [CHR '' '', CHR 0x09, CHR 0x0A, CHR 0x0B, CHR 0x0C, CHR 0x0D])"

definition trim :: "string \<Rightarrow> string" where
  "trim s = rev (dropWhile is_space (rev (dropWhile is_space s)))"

text \<open>A JavaScript string used as a condition: absent and empty strings are falsy.\<close>

definition truthy :: "string option \<Rightarrow> bool" where
  "truthy x = (case x of None \<Rightarrow> False | Some n \<Rightarrow> n \<noteq> [])"

section \<open>Schema validation run by save\<close>

text \<open>
  \<^verbatim>\<open>doc.save()\<close> and \<^verbatim>\<open>Model.create\<close> first run the validators of the schema on the
  document, then the schema's \<^verbatim>\<open>pre('save')\<close> hook; when either rejects, the call throws
  and nothing is written. Each predicate below is that check for one schema, on the
  document about to be written.

  \<^verbatim>\<open>models/book.js\<close>: \<^verbatim>\<open>totalCopies\<close> and \<^verbatim>\<open>availableCopies\<close> carry \<^verbatim>\<open>min: 0\<close>, and the hook
  rejects \<^verbatim>\<open>availableCopies > totalCopies\<close>.
\<close>

definition book_save_ok :: "book \<Rightarrow> bool" where
  "book_save_ok b =
     (0 \<le> totalCopies b \<and> 0 \<le> availableCopies b \<and> \<not> (availableCopies b > totalCopies b))"

text \<open>
  \<^verbatim>\<open>models/transaction.js\<close>: \<^verbatim>\<open>fineAmount\<close> has \<^verbatim>\<open>min: 0\<close>; the hook rejects a return
  date before the issue date (\<^verbatim>\<open>this.returnDate && this.returnDate < this.issueDate\<close>).
\<close>

definition transaction_save_ok :: "transaction \<Rightarrow> bool" where
  "transaction_save_ok t =
     (0 \<le> t_fineAmount t \<and>
      \<not> (case t_returnDate t of None \<Rightarrow> False | Some r \<Rightarrow> r < t_issueDate t))"

text \<open>
  \<^verbatim>\<open>models/fine.js\<close>: \<^verbatim>\<open>amount\<close> has \<^verbatim>\<open>min: 0\<close>; the hook stamps a missing
  \<^verbatim>\<open>paymentDate\<close> on a paid fine and never rejects.
\<close>

definition fine_save_ok :: "fine \<Rightarrow> bool" where
  "fine_save_ok f = (0 \<le> f_amount f)"

definition fine_pre_save :: "date \<Rightarrow> fine \<Rightarrow> fine" where
  "fine_pre_save now f =
     (if f_paymentStatus f = Paid \<and> f_paymentDate f = None then f\<lparr>f_paymentDate := Some now\<rparr> else f)"

text \<open>
  \<^verbatim>\<open>models/reservation.js\<close>: \<^verbatim>\<open>priority\<close> has \<^verbatim>\<open>min: 1\<close>; the hook rejects an expiry date
  that is not after the reservation date.
\<close>

definition reservation_save_ok :: "reservation \<Rightarrow> bool" where
  "reservation_save_ok r = (1 \<le> r_priority r \<and> \<not> (r_expiryDate r \<le> r_reservationDate r))"

section \<open>Transaction controller\<close>

definition borrowingLimit :: "role \<Rightarrow> int" where
  "borrowingLimit r = (if r = Borrower then 5 else 10)"

text \<open>
  \<^verbatim>\<open>issueBook\<close>. The request body is \<open>userId\<close>, \<open>bookId\<close>, \<open>dueDate\<close> (the route validator
  has checked that it is a date); \<open>staff\<close> is \<^verbatim>\<open>req.user._id\<close>. The created transaction has
  \<open>fineAmount = 0\<close> and no return date, so its validation cannot fail. It is created before
  the book is saved, so a rejected book save leaves the transaction behind.
\<close>

definition issueBook :: "db \<Rightarrow> oid \<Rightarrow> oid \<Rightarrow> date \<Rightarrow> oid \<Rightarrow> date \<Rightarrow> (error + transaction) \<times> db" where
  "issueBook s userId bookId dueDate staff now =
     (case findById u_id (users s) userId of
        None \<Rightarrow> (Inl UserNotFound, s)
      | Some user \<Rightarrow>
          if u_status user \<noteq> UserActive then (Inl UserNotActive, s)
          else (case findById b_id (books s) bookId of
            None \<Rightarrow> (Inl BookNotFound, s)
          | Some book \<Rightarrow>
              if availableCopies book \<le> 0 \<or> b_status book \<noteq> Available
              then (Inl BookNotAvailable, s)
              else if find (\<lambda>t. t_userId t = userId \<and> t_bookId t = bookId \<and> t_status t = Issued)
                        (transactions s) \<noteq> None
              then (Inl AlreadyIssued, s)
              else if int (length (filter (\<lambda>t. t_userId t = userId \<and> t_status t = Issued)
                        (transactions s))) \<ge> borrowingLimit (u_role user)
              then (Inl (BorrowingLimitReached (borrowingLimit (u_role user))), s)
              else if find (\<lambda>f. f_userId f = userId \<and> f_paymentStatus f = Pending) (fines s) \<noteq> None
              then (Inl OutstandingFines, s)
              else
                let transaction = \<lparr> t_id = fresh_id t_id (transactions s), t_userId = userId,
                      t_bookId = bookId, t_issueDate = now, t_dueDate = dueDate,
                      t_returnDate = None, t_fineAmount = 0, t_status = Issued,
                      t_issuedBy = staff, t_returnedBy = None, t_notes = None,
                      t_createdAt = now, t_updatedAt = now \<rparr>;
                    s1 = s\<lparr>transactions := transactions s @ [transaction]\<rparr>;
                    book' = book\<lparr>availableCopies := availableCopies book - 1\<rparr>
                in if \<not> book_save_ok book' then (Inl ValidationError, s1)
                   else (Inr transaction, s1\<lparr>books := store b_id book' (books s1)\<rparr>)))"

text \<open>
  The fine rate of \<^verbatim>\<open>returnBook\<close> is the literal \<^verbatim>\<open>1\<close> (\<^verbatim>\<open>overdueDays * 1\<close>, "$1 per day");
  the number of overdue days is
  \<^verbatim>\<open>Math.ceil((returnDate - transaction.dueDate) / (1000 * 60 * 60 * 24))\<close>. The model computes
  the exact ceiling, which is what the double arithmetic of the code yields for every
  interval below \<open>2^53\<close> milliseconds.
\<close>

definition dailyRate :: int where
  "dailyRate = 1"

definition overdueDays :: "date \<Rightarrow> date \<Rightarrow> int" where
  "overdueDays returnDate dueDate =
     \<lceil>real_of_int (returnDate - dueDate) / real_of_int (1000 * 60 * 60 * 24)\<rceil>"

text \<open>
  \<^verbatim>\<open>returnBook\<close>. The transaction is loaded with its user and book populated; a reference
  to a deleted document populates as \<^verbatim>\<open>null\<close>. \<^verbatim>\<open>transaction.userId._id\<close> is read only when
  a fine is created and throws a \<^verbatim>\<open>TypeError\<close> when the borrower is gone;
  \<^verbatim>\<open>transaction.bookId._id\<close> is read after the transaction is saved and throws when the
  book is gone. The fine is created first (its amount is positive, so its validation cannot
  fail), the transaction saved second, the book saved last; a step that throws leaves the
  earlier writes in place.
\<close>

definition returnBook :: "db \<Rightarrow> oid \<Rightarrow> string option \<Rightarrow> oid \<Rightarrow> date \<Rightarrow> (error + transaction \<times> int option) \<times> db" where
  "returnBook s tid notes staff now =
     (case findById t_id (transactions s) tid of
        None \<Rightarrow> (Inl TransactionNotFound, s)
      | Some transaction \<Rightarrow>
          if t_status transaction \<noteq> Issued then (Inl NotCurrentlyIssued, s)
          else
            let populatedUser = findById u_id (users s) (t_userId transaction);
                returnDate = now;
                overdue = (returnDate > t_dueDate transaction)
            in if overdue \<and> populatedUser = None then (Inl TypeError, s)
               else
                 let fineAmount = (if overdue
                        then overdueDays returnDate (t_dueDate transaction) * dailyRate else 0);
                     s1 = (if overdue
                        then s\<lparr>fines := fines s @ [\<lparr> f_id = fresh_id f_id (fines s),
                               f_userId = t_userId transaction, f_transactionId = t_id transaction,
                               f_amount = fineAmount, f_reason = ReasonOverdue,
                               f_paymentStatus = Pending, f_paymentDate = None,
                               f_paymentMethod = None, f_processedBy = None, f_notes = None,
                               f_createdAt = now, f_updatedAt = now \<rparr>]\<rparr>
                        else s);
                     transaction' = transaction\<lparr>t_returnDate := Some returnDate,
                        t_status := Returned, t_fineAmount := fineAmount,
                        t_returnedBy := Some staff, t_notes := map_option trim notes\<rparr>
                 in if \<not> transaction_save_ok transaction' then (Inl ValidationError, s1)
                    else
                      let s2 = s1\<lparr>transactions := store t_id transaction' (transactions s1)\<rparr>
                      in (case findById b_id (books s2) (t_bookId transaction) of
                            None \<Rightarrow> (Inl TypeError, s2)
                          | Some book \<Rightarrow>
                              let book' = book\<lparr>availableCopies := availableCopies book + 1\<rparr>
                              in if \<not> book_save_ok book' then (Inl ValidationError, s2)
                                 else (Inr (transaction', if fineAmount > 0 then Some fineAmount else None),
                                       s2\<lparr>books := store b_id book' (books s2)\<rparr>)))"

text \<open>
  \<^verbatim>\<open>extendDueDate\<close>: no check of \<open>newDueDate\<close> against the clock or the issue date. The
  audit note is appended to the existing notes when these are a non-empty string.
\<close>

definition extension_note :: "string option \<Rightarrow> string \<Rightarrow> string" where
  "extension_note notes reason =
     (if truthy notes then the notes @ [CHR 0x0A] @ ''Due date extended: '' @ reason
      else ''Due date extended: '' @ reason)"

definition extendDueDate :: "db \<Rightarrow> oid \<Rightarrow> date \<Rightarrow> string \<Rightarrow> date \<Rightarrow> (error + oid \<times> date) \<times> db" where
  "extendDueDate s tid newDueDate reason now =
     (case findById t_id (transactions s) tid of
        None \<Rightarrow> (Inl TransactionNotFound, s)
      | Some transaction \<Rightarrow>
          if t_status transaction \<noteq> Issued then (Inl OnlyIssuedCanBeExtended, s)
          else
            let transaction' = transaction\<lparr>t_dueDate := newDueDate,
                  t_notes := Some (trim (extension_note (t_notes transaction) reason)),
                  t_updatedAt := now\<rparr>
            in if \<not> transaction_save_ok transaction' then (Inl ValidationError, s)
               else (Inr (t_id transaction', t_dueDate transaction'),
                     s\<lparr>transactions := store t_id transaction' (transactions s)\<rparr>))"

section \<open>Book controller\<close>

text \<open>
  \<^verbatim>\<open>updateBookAvailability\<close>: each of the two body fields is assigned when it is not
  \<^verbatim>\<open>undefined\<close> (\<open>None\<close>); the route has no validator for them, the schema validation of
  \<^verbatim>\<open>save\<close> is the only check.
\<close>

definition updateBookAvailability :: "db \<Rightarrow> oid \<Rightarrow> real option \<Rightarrow> real option \<Rightarrow> date \<Rightarrow> (error + book) \<times> db" where
  "updateBookAvailability s bid availableCopies' totalCopies' now =
     (case findById b_id (books s) bid of
        None \<Rightarrow> (Inl BookNotFound, s)
      | Some book \<Rightarrow>
          let book1 = (case totalCopies' of None \<Rightarrow> book | Some n \<Rightarrow> book\<lparr>totalCopies := n\<rparr>);
              book2 = (case availableCopies' of None \<Rightarrow> book1 | Some n \<Rightarrow> book1\<lparr>availableCopies := n\<rparr>);
              book3 = book2\<lparr>b_updatedAt := now\<rparr>
          in if \<not> book_save_ok book3 then (Inl ValidationError, s)
             else (Inr book3, s\<lparr>books := store b_id book3 (books s)\<rparr>))"

section \<open>Fine controller\<close>

text \<open>
  The notes written by \<^verbatim>\<open>processFinePayment\<close>
  (\<^verbatim>\<open>notes ? `${fine.notes || ''}\nPayment: ${notes}` : fine.notes\<close>) and by \<^verbatim>\<open>waiveFine\<close>
  (\<^verbatim>\<open>fine.notes ? `${fine.notes}\nWaived: ${reason}` : `Waived: ${reason}`\<close>).
\<close>

definition payment_notes :: "string option \<Rightarrow> string option \<Rightarrow> string option" where
  "payment_notes old notes =
     (if truthy notes
      then Some ((if truthy old then the old else []) @ [CHR 0x0A] @ ''Payment: '' @ the notes)
      else old)"

definition waiver_notes :: "string option \<Rightarrow> string \<Rightarrow> string" where
  "waiver_notes old reason =
     (if truthy old then the old @ [CHR 0x0A] @ ''Waived: '' @ reason else ''Waived: '' @ reason)"

definition processFinePayment ::
  "db \<Rightarrow> oid \<Rightarrow> payment_method option \<Rightarrow> string option \<Rightarrow> oid \<Rightarrow> date \<Rightarrow> (error + fine) \<times> db" where
  "processFinePayment s fid paymentMethod notes staff now =
     (case findById f_id (fines s) fid of
        None \<Rightarrow> (Inl FineNotFound, s)
      | Some fine \<Rightarrow>
          if f_paymentStatus fine = Paid then (Inl FineAlreadyPaid, s)
          else if f_paymentStatus fine = Waived then (Inl FineHasBeenWaived, s)
          else
            let fine' = fine_pre_save now (fine\<lparr>f_paymentStatus := Paid, f_paymentDate := Some now,
                          f_paymentMethod := paymentMethod, f_processedBy := Some staff,
                          f_notes := map_option trim (payment_notes (f_notes fine) notes),
                          f_updatedAt := now\<rparr>)
            in if \<not> fine_save_ok fine' then (Inl ValidationError, s)
               else (Inr fine', s\<lparr>fines := store f_id fine' (fines s)\<rparr>))"

definition waiveFine :: "db \<Rightarrow> oid \<Rightarrow> string \<Rightarrow> oid \<Rightarrow> date \<Rightarrow> (error + fine) \<times> db" where
  "waiveFine s fid reason staff now =
     (case findById f_id (fines s) fid of
        None \<Rightarrow> (Inl FineNotFound, s)
      | Some fine \<Rightarrow>
          if f_paymentStatus fine = Paid then (Inl CannotWaivePaidFine, s)
          else if f_paymentStatus fine = Waived then (Inl FineAlreadyWaived, s)
          else
            let fine' = fine_pre_save now (fine\<lparr>f_paymentStatus := Waived,
                          f_processedBy := Some staff,
                          f_notes := Some (trim (waiver_notes (f_notes fine) reason)),
                          f_updatedAt := now\<rparr>)
            in if \<not> fine_save_ok fine' then (Inl ValidationError, s)
               else (Inr fine', s\<lparr>fines := store f_id fine' (fines s)\<rparr>))"

text \<open>
  \<^verbatim>\<open>updateFine\<close> and \<^verbatim>\<open>deleteFine\<close> refuse a paid fine only; the payment status is the
  one thing they test.
\<close>

definition updateFine ::
  "db \<Rightarrow> oid \<Rightarrow> int option \<Rightarrow> fine_reason option \<Rightarrow> string option \<Rightarrow> date \<Rightarrow> (error + fine) \<times> db" where
  "updateFine s fid amount reason notes now =
     (case findById f_id (fines s) fid of
        None \<Rightarrow> (Inl FineNotFound, s)
      | Some fine \<Rightarrow>
          if f_paymentStatus fine = Paid then (Inl CannotUpdatePaidFine, s)
          else
            let fine' = fine_pre_save now (fine\<lparr>
                          f_amount := (case amount of Some a \<Rightarrow> a | None \<Rightarrow> f_amount fine),
                          f_reason := (case reason of Some r \<Rightarrow> r | None \<Rightarrow> f_reason fine),
                          f_notes := map_option trim (if truthy notes then notes else f_notes fine),
                          f_updatedAt := now\<rparr>)
            in if \<not> fine_save_ok fine' then (Inl ValidationError, s)
               else (Inr fine', s\<lparr>fines := store f_id fine' (fines s)\<rparr>))"

definition deleteFine :: "db \<Rightarrow> oid \<Rightarrow> (error + unit) \<times> db" where
  "deleteFine s fid =
     (case findById f_id (fines s) fid of
        None \<Rightarrow> (Inl FineNotFound, s)
      | Some fine \<Rightarrow>
          if f_paymentStatus fine = Paid then (Inl CannotDeletePaidFine, s)
          else (Inr (), s\<lparr>fines := filter (\<lambda>f. f_id f \<noteq> fid) (fines s)\<rparr>))"

text \<open>
  \<^verbatim>\<open>getUserOutstandingFines\<close>: \<^verbatim>\<open>totalOutstanding\<close> is the sum of \<^verbatim>\<open>amount\<close> over the
  user's pending fines.
\<close>

definition totalOutstanding :: "db \<Rightarrow> oid \<Rightarrow> int" where
  "totalOutstanding s userId =
     sum_list (map f_amount (filter (\<lambda>f. f_userId f = userId \<and> f_paymentStatus f = Pending) (fines s)))"

section \<open>Reservation controller\<close>

definition reservationLimit :: "role \<Rightarrow> int" where
  "reservationLimit r = (if r = Borrower then 3 else 5)"

text \<open>
  \<^verbatim>\<open>createReservation\<close>; \<open>userId\<close> and \<open>userRole\<close> are \<^verbatim>\<open>req.user._id\<close> and
  \<^verbatim>\<open>req.user.role\<close>. The answer carries the reservation and its queue position.
\<close>

definition createReservation ::
  "db \<Rightarrow> oid \<Rightarrow> role \<Rightarrow> oid \<Rightarrow> date \<Rightarrow> date \<Rightarrow> (error + reservation \<times> int) \<times> db" where
  "createReservation s userId userRole bookId expiryDate now =
     (case findById b_id (books s) bookId of
        None \<Rightarrow> (Inl BookNotFound, s)
      | Some book \<Rightarrow>
          if availableCopies book > 0 \<and> b_status book = Available
          then (Inl BookCurrentlyAvailable, s)
          else if find (\<lambda>r. r_userId r = userId \<and> r_bookId r = bookId \<and> r_status r = Active)
                    (reservations s) \<noteq> None
          then (Inl AlreadyReserved, s)
          else if find (\<lambda>t. t_userId t = userId \<and> t_bookId t = bookId \<and> t_status t = Issued)
                    (transactions s) \<noteq> None
          then (Inl CurrentlyHoldsBook, s)
          else if int (length (filter (\<lambda>r. r_userId r = userId \<and> r_status r = Active)
                    (reservations s))) \<ge> reservationLimit userRole
          then (Inl (ReservationLimitReached (reservationLimit userRole)), s)
          else
            let queuePosition = int (length (filter (\<lambda>r. r_bookId r = bookId \<and> r_status r = Active)
                                  (reservations s))) + 1;
                reservation = \<lparr> r_id = fresh_id r_id (reservations s), r_userId = userId,
                      r_bookId = bookId, r_reservationDate = now, r_expiryDate = expiryDate,
                      r_status = Active, r_priority = queuePosition, r_notificationSent = False,
                      r_fulfilledBy = None, r_fulfilledDate = None, r_notes = None,
                      r_createdAt = now, r_updatedAt = now \<rparr>
            in if \<not> reservation_save_ok reservation then (Inl ValidationError, s)
               else (Inr (reservation, queuePosition),
                     s\<lparr>reservations := reservations s @ [reservation]\<rparr>))"

text \<open>
  \<^verbatim>\<open>updateReservationPriorities\<close>: the active reservations of the book, sorted by
  \<^verbatim>\<open>reservationDate\<close> ascending, are numbered from 1 and saved one by one. The loop is
  \<open>renumber\<close>; a rejected save throws out of the loop (\<open>False\<close>) with the earlier saves
  done.
\<close>

fun renumber :: "reservation list \<Rightarrow> int \<Rightarrow> reservation list \<Rightarrow> bool \<times> reservation list" where
  "renumber [] i rs = (True, rs)"
| "renumber (a # as) i rs =
     (let a' = a\<lparr>r_priority := i + 1\<rparr>
      in if \<not> reservation_save_ok a' then (False, rs)
         else renumber as (i + 1) (store r_id a' rs))"

definition updateReservationPriorities :: "db \<Rightarrow> oid \<Rightarrow> bool \<times> db" where
  "updateReservationPriorities s bookId =
     (let activeReservations = sort_key r_reservationDate
            (filter (\<lambda>r. r_bookId r = bookId \<and> r_status r = Active) (reservations s));
          (ok, rs) = renumber activeReservations 0 (reservations s)
      in (ok, s\<lparr>reservations := rs\<rparr>))"

definition cancelReservation :: "db \<Rightarrow> oid \<Rightarrow> oid \<Rightarrow> role \<Rightarrow> date \<Rightarrow> (error + reservation) \<times> db" where
  "cancelReservation s rid userId userRole now =
     (case findById r_id (reservations s) rid of
        None \<Rightarrow> (Inl ReservationNotFound, s)
      | Some reservation \<Rightarrow>
          let isOwner = (r_userId reservation = userId);
              isStaff = (userRole \<in> set [Admin, Librarian])
          in if \<not> isOwner \<and> \<not> isStaff then (Inl AccessDenied, s)
             else if r_status reservation \<noteq> Active then (Inl OnlyActiveCanBeCancelled, s)
             else
               let reservation' = reservation\<lparr>r_status := Cancelled, r_updatedAt := now\<rparr>
               in if \<not> reservation_save_ok reservation' then (Inl ValidationError, s)
                  else
                    let s1 = s\<lparr>reservations := store r_id reservation' (reservations s)\<rparr>;
                        (ok, s2) = updateReservationPriorities s1 (r_bookId reservation')
                    in if \<not> ok then (Inl ValidationError, s2) else (Inr reservation', s2))"

definition fulfillReservation :: "db \<Rightarrow> oid \<Rightarrow> oid \<Rightarrow> date \<Rightarrow> (error + reservation) \<times> db" where
  "fulfillReservation s rid staff now =
     (case findById r_id (reservations s) rid of
        None \<Rightarrow> (Inl ReservationNotFound, s)
      | Some reservation \<Rightarrow>
          if r_status reservation \<noteq> Active then (Inl OnlyActiveCanBeFulfilled, s)
          else (case findById b_id (books s) (r_bookId reservation) of
            None \<Rightarrow> (Inl TypeError, s)
          | Some book \<Rightarrow>
              if availableCopies book \<le> 0 then (Inl BookNotAvailableYet, s)
              else
                let reservation' = reservation\<lparr>r_status := Fulfilled, r_fulfilledBy := Some staff,
                      r_fulfilledDate := Some now, r_updatedAt := now\<rparr>
                in if \<not> reservation_save_ok reservation' then (Inl ValidationError, s)
                   else
                     let s1 = s\<lparr>reservations := store r_id reservation' (reservations s)\<rparr>;
                         (ok, s2) = updateReservationPriorities s1 (r_bookId reservation')
                     in if \<not> ok then (Inl ValidationError, s2) else (Inr reservation', s2)))"

text \<open>
  \<^verbatim>\<open>autoExpireReservations\<close> is a single \<^verbatim>\<open>Reservation.updateMany\<close>: every active
  reservation with \<^verbatim>\<open>expiryDate < now\<close> gets status \<^verbatim>\<open>expired\<close>. The handler answers the
  number of modified documents and does nothing else.
\<close>

definition autoExpireReservations :: "db \<Rightarrow> date \<Rightarrow> nat \<times> db" where
  "autoExpireReservations s now =
     (length (filter (\<lambda>r. r_status r = Active \<and> r_expiryDate r < now) (reservations s)),
      s\<lparr>reservations := map (\<lambda>r. if r_status r = Active \<and> r_expiryDate r < now
                                    then r\<lparr>r_status := Expired, r_updatedAt := now\<rparr> else r)
                              (reservations s)\<rparr>)"

section \<open>Sequences of operations\<close>

text \<open>
  The operations that write \<^verbatim>\<open>availableCopies\<close> or \<^verbatim>\<open>totalCopies\<close> of a stored book, as
  requests; \<open>apply_operation\<close> is the state a request leaves behind, whatever it answers.
\<close>

datatype operation =
    IssueBook oid oid date oid date
  | ReturnBook oid "string option" oid date
  | UpdateBookAvailability oid "real option" "real option" date

fun apply_operation :: "db \<Rightarrow> operation \<Rightarrow> db" where
  "apply_operation s (IssueBook userId bookId dueDate staff now) =
     snd (issueBook s userId bookId dueDate staff now)"
| "apply_operation s (ReturnBook tid ns staff now) = snd (returnBook s tid ns staff now)"
| "apply_operation s (UpdateBookAvailability bid a t now) =
     snd (updateBookAvailability s bid a t now)"

definition run :: "db \<Rightarrow> operation list \<Rightarrow> db" where
  "run s ops = foldl apply_operation s ops"

section \<open>Properties to be proved\<close>

definition copies_ok :: "book \<Rightarrow> bool" where
  "copies_ok b = (0 \<le> availableCopies b \<and> availableCopies b \<le> totalCopies b)"

definition copies_ok_at :: "db \<Rightarrow> oid \<Rightarrow> bool" where
  "copies_ok_at s bookId = (\<forall>b \<in> set (books s). b_id b = bookId \<longrightarrow> copies_ok b)"

text \<open>
  The filter of \<^verbatim>\<open>getOverdueTransactions\<close>:
  \<^verbatim>\<open>{ status: 'issued', dueDate: { $lt: new Date() } }\<close>.
\<close>

definition is_overdue :: "date \<Rightarrow> transaction \<Rightarrow> bool" where
  "is_overdue now t = (t_status t = Issued \<and> t_dueDate t < now)"

text \<open>
  The preconditions of \<^verbatim>\<open>issueBook\<close>, one predicate each, and the precondition each error
  answer stands for.
\<close>

definition open_loans :: "db \<Rightarrow> oid \<Rightarrow> transaction list" where
  "open_loans s userId = filter (\<lambda>t. t_userId t = userId \<and> t_status t = Issued) (transactions s)"

definition pending_fines :: "db \<Rightarrow> oid \<Rightarrow> fine list" where
  "pending_fines s userId =
     filter (\<lambda>f. f_userId f = userId \<and> f_paymentStatus f = Pending) (fines s)"

definition borrower_active :: "db \<Rightarrow> oid \<Rightarrow> bool" where
  "borrower_active s userId =
     (case findById u_id (users s) userId of None \<Rightarrow> False | Some u \<Rightarrow> u_status u = UserActive)"

definition book_loanable :: "db \<Rightarrow> oid \<Rightarrow> bool" where
  "book_loanable s bookId =
     (case findById b_id (books s) bookId of None \<Rightarrow> False
      | Some b \<Rightarrow> 0 < availableCopies b \<and> b_status b = Available)"

definition no_open_loan :: "db \<Rightarrow> oid \<Rightarrow> oid \<Rightarrow> bool" where
  "no_open_loan s userId bookId = (filter (\<lambda>t. t_bookId t = bookId) (open_loans s userId) = [])"

definition below_limit :: "db \<Rightarrow> oid \<Rightarrow> bool" where
  "below_limit s userId =
     (case findById u_id (users s) userId of None \<Rightarrow> False
      | Some u \<Rightarrow> int (length (open_loans s userId)) < borrowingLimit (u_role u))"

definition other_preconditions :: "db \<Rightarrow> oid \<Rightarrow> oid \<Rightarrow> bool" where
  "other_preconditions s userId bookId =
     (borrower_active s userId \<and> book_loanable s bookId \<and> no_open_loan s userId bookId \<and>
      below_limit s userId)"

definition issue_preconditions :: "db \<Rightarrow> oid \<Rightarrow> oid \<Rightarrow> bool" where
  "issue_preconditions s userId bookId =
     (other_preconditions s userId bookId \<and> pending_fines s userId = [])"

definition precondition_failed :: "db \<Rightarrow> oid \<Rightarrow> oid \<Rightarrow> error \<Rightarrow> bool" where
  "precondition_failed s userId bookId e =
     (case e of
        UserNotFound \<Rightarrow> findById u_id (users s) userId = None
      | UserNotActive \<Rightarrow> findById u_id (users s) userId \<noteq> None \<and> \<not> borrower_active s userId
      | BookNotFound \<Rightarrow> findById b_id (books s) bookId = None
      | BookNotAvailable \<Rightarrow> findById b_id (books s) bookId \<noteq> None \<and> \<not> book_loanable s bookId
      | AlreadyIssued \<Rightarrow> \<not> no_open_loan s userId bookId
      | BorrowingLimitReached n \<Rightarrow>
          (case findById u_id (users s) userId of None \<Rightarrow> False
           | Some u \<Rightarrow> n = borrowingLimit (u_role u) \<and> \<not> below_limit s userId)
      | OutstandingFines \<Rightarrow> pending_fines s userId \<noteq> []
      | _ \<Rightarrow> False)"

text \<open>
  The priorities of the active reservations of a book, in storage order, and the property
  that they are the numbers \<open>1..N\<close>, each once, \<open>N\<close> being their count.
\<close>

definition active_priorities :: "db \<Rightarrow> oid \<Rightarrow> int list" where
  "active_priorities s bookId =
     map r_priority (filter (\<lambda>r. r_bookId r = bookId \<and> r_status r = Active) (reservations s))"

definition priorities_contiguous :: "db \<Rightarrow> oid \<Rightarrow> bool" where
  "priorities_contiguous s bookId =
     (sort (active_priorities s bookId) = [1..int (length (active_priorities s bookId))])"

section \<open>Example data\<close>

definition alice :: user where
  "alice = \<lparr> u_id = 1, u_role = Borrower, u_status = UserActive \<rparr>"

definition bob :: user where
  "bob = \<lparr> u_id = 2, u_role = Borrower, u_status = UserActive \<rparr>"

definition novel :: book where
  "novel = \<lparr> b_id = 1, totalCopies = 2, availableCopies = 1, b_status = Available,
             b_updatedAt = 0 \<rparr>"

definition library :: db where
  "library = \<lparr> users = [alice, bob], books = [novel], transactions = [], fines = [],
               reservations = [] \<rparr>"

text \<open>Alice holds the novel, issued at time 1000 and due at time 2000.\<close>

definition loan :: transaction where
  "loan = \<lparr> t_id = 1, t_userId = 1, t_bookId = 1, t_issueDate = 1000, t_dueDate = 2000,
            t_returnDate = None, t_fineAmount = 0, t_status = Issued, t_issuedBy = 9,
            t_returnedBy = None, t_notes = None, t_createdAt = 1000, t_updatedAt = 1000 \<rparr>"

definition lending :: db where
  "lending = library\<lparr>transactions := [loan]\<rparr>"

text \<open>The same loan after Alice's user record has been deleted.\<close>

definition orphaned :: db where
  "orphaned = lending\<lparr>users := [bob]\<rparr>"

text \<open>The novel with half a copy available, as the availability route stores it when asked.\<close>

definition half_copy :: db where
  "half_copy = library\<lparr>books := [novel\<lparr>availableCopies := 1 / 2\<rparr>]\<rparr>"

text \<open>Alice has one fine: \<open>settled\<close> with the fine paid, \<open>zero_fine\<close> with it pending at amount 0.\<close>

definition paid_fine :: fine where
  "paid_fine = \<lparr> f_id = 1, f_userId = 1, f_transactionId = 7, f_amount = 5,
                 f_reason = ReasonOverdue, f_paymentStatus = Paid, f_paymentDate = Some 900,
                 f_paymentMethod = Some Cash, f_processedBy = Some 9, f_notes = None,
                 f_createdAt = 800, f_updatedAt = 900 \<rparr>"

definition settled :: db where
  "settled = library\<lparr>fines := [paid_fine]\<rparr>"

definition zero_fine :: db where
  "zero_fine = library\<lparr>fines := [paid_fine\<lparr>f_amount := 0, f_paymentStatus := Pending,
                 f_paymentDate := None, f_paymentMethod := None, f_processedBy := None\<rparr>]\<rparr>"

text \<open>The novel is on the shelf with one copy, but under maintenance.\<close>

definition workshop :: db where
  "workshop = library\<lparr>books := [novel\<lparr>b_status := Maintenance\<rparr>]\<rparr>"

text \<open>
  A book with no copy available. Alice reserves it at time 1000 until 2000, Bob at time 1100
  until 9000; the expiry sweep runs at time 3000.
\<close>

definition rare :: book where
  "rare = \<lparr> b_id = 1, totalCopies = 1, availableCopies = 0, b_status = Available,
            b_updatedAt = 0 \<rparr>"

definition queue0 :: db where
  "queue0 = library\<lparr>books := [rare]\<rparr>"

definition queue1 :: db where
  "queue1 = snd (createReservation queue0 1 Borrower 1 2000 1000)"

definition queue2 :: db where
  "queue2 = snd (createReservation queue1 2 Borrower 1 9000 1100)"

definition queue3 :: db where
  "queue3 = snd (autoExpireReservations queue2 3000)"

text \<open>Alice's fine, waived instead of paid.\<close>

definition waived_fine :: fine where
  "waived_fine = paid_fine\<lparr>f_paymentStatus := Waived, f_paymentDate := None,
                   f_paymentMethod := None\<rparr>"

definition forgiven :: db where
  "forgiven = library\<lparr>fines := [waived_fine]\<rparr>"

section \<open>Facts about collections\<close>

lemma findById_Some: "findById ident xs i = Some d \<Longrightarrow> d \<in> set xs \<and> ident d = i"
  unfolding findById_def by (induction xs) (auto split: if_splits)

lemma set_store: "x \<in> set (store ident d xs) \<Longrightarrow> x = d \<or> x \<in> set xs"
  unfolding store_def by auto

lemma findById_store:
  "findById ident xs i = Some d \<Longrightarrow> ident d' = i \<Longrightarrow> findById ident (store ident d' xs) i = Some d'"
  unfolding findById_def store_def by (induction xs) (auto split: if_splits)

lemma fold_max_ge: "(a::nat) \<le> fold max xs a \<and> (\<forall>x \<in> set xs. x \<le> fold max xs a)"
proof (induction xs arbitrary: a)
  case Nil
  then show ?case by simp
next
  case (Cons y ys)
  have "max y a \<le> fold max ys (max y a)" and "\<forall>x\<in>set ys. x \<le> fold max ys (max y a)"
    using Cons.IH[of "max y a"] by simp_all
  then show ?case by auto
qed

lemma fresh_id_fresh: "x \<in> set xs \<Longrightarrow> ident x \<noteq> fresh_id ident xs"
  using fold_max_ge[of 0 "map ident xs"] unfolding fresh_id_def by force

lemma find_app:
  "find P (xs @ ys) = (case find P xs of None \<Rightarrow> find P ys | Some x \<Rightarrow> Some x)"
  by (induction xs) simp_all

lemma findById_append_fresh:
  "ident d = fresh_id ident xs \<Longrightarrow> findById ident (xs @ [d]) (fresh_id ident xs) = Some d"
proof -
  assume d: "ident d = fresh_id ident xs"
  have "find (\<lambda>x. ident x = fresh_id ident xs) xs = None"
    using fresh_id_fresh[of _ xs ident] by (auto simp: find_None_iff)
  then show ?thesis using d by (simp add: findById_def find_app)
qed

lemma find_None_filter: "(find P xs = None) = (filter P xs = [])"
  by (induction xs) auto

section \<open>The copy-count invariant\<close>

lemma book_save_copies_ok: "book_save_ok b \<Longrightarrow> copies_ok b"
  unfolding copies_ok_def book_save_ok_def by auto

lemma store_book_copies_ok:
  assumes "copies_ok_at s i" and "book_save_ok b'" and "books s' = store b_id b' (books s)"
  shows "copies_ok_at s' i"
  using assms book_save_copies_ok[of b'] set_store[of _ b_id b' "books s"]
  by (auto simp: copies_ok_at_def)

lemma same_books_copies_ok: "copies_ok_at s i \<Longrightarrow> books s' = books s \<Longrightarrow> copies_ok_at s' i"
  by (simp add: copies_ok_at_def)

lemma issueBook_books:
  "books (snd (issueBook s userId bookId dueDate staff now)) = books s \<or>
   (\<exists>b'. book_save_ok b' \<and>
      books (snd (issueBook s userId bookId dueDate staff now)) = store b_id b' (books s))"
  unfolding issueBook_def Let_def
  by (auto split: option.splits)

lemma returnBook_books:
  "books (snd (returnBook s tid ns staff now)) = books s \<or>
   (\<exists>b'. book_save_ok b' \<and>
      books (snd (returnBook s tid ns staff now)) = store b_id b' (books s))"
  unfolding returnBook_def Let_def
  by (auto split: option.splits)

lemma updateBookAvailability_books:
  "books (snd (updateBookAvailability s bid a t now)) = books s \<or>
   (\<exists>b'. book_save_ok b' \<and>
      books (snd (updateBookAvailability s bid a t now)) = store b_id b' (books s))"
  unfolding updateBookAvailability_def Let_def
  by (auto split: option.splits)

lemma apply_operation_books:
  "books (apply_operation s x) = books s \<or>
   (\<exists>b'. book_save_ok b' \<and> books (apply_operation s x) = store b_id b' (books s))"
  using issueBook_books returnBook_books updateBookAvailability_books
  by (cases x) simp_all

lemma apply_operation_copies_ok:
  assumes "copies_ok_at s i"
  shows "copies_ok_at (apply_operation s x) i"
  using apply_operation_books[of s x]
proof (elim disjE exE conjE)
  assume "books (apply_operation s x) = books s"
  with assms show ?thesis by (rule same_books_copies_ok)
next
  fix b'
  assume "book_save_ok b'" "books (apply_operation s x) = store b_id b' (books s)"
  with assms show ?thesis by (rule store_book_copies_ok)
qed

text \<open>
  C1. When the stored book with a given id has \<open>0 \<le> availableCopies \<le> totalCopies\<close>, it
  still has after any sequence of \<^verbatim>\<open>issueBook\<close>, \<^verbatim>\<open>returnBook\<close> and
  \<^verbatim>\<open>updateBookAvailability\<close> requests handled one after the other, whether each of them
  succeeds or answers an error: every write of a book goes through \<^verbatim>\<open>save\<close>, whose
  validation refuses a document outside the range.
\<close>

theorem copies_invariant_preserved:
  "copies_ok_at s bookId \<Longrightarrow> copies_ok_at (run s ops) bookId"
  unfolding run_def
  by (induction ops arbitrary: s) (simp_all add: apply_operation_copies_ok)

theorem copies_invariant_preserved_witness:
  "copies_ok_at library 1 \<and>
   copies_ok_at (run library [IssueBook 1 1 2000 9 1000, UpdateBookAvailability 1 (Some 5) None 1500,
                              ReturnBook 1 None 9 3000, ReturnBook 1 None 9 3001]) 1"
  using copies_invariant_preserved
    [of library 1 "[IssueBook 1 1 2000 9 1000, UpdateBookAvailability 1 (Some 5) None 1500,
                    ReturnBook 1 None 9 3000, ReturnBook 1 None 9 3001]"]
  by (simp add: copies_ok_at_def copies_ok_def library_def novel_def)

section \<open>Returning a loan\<close>

lemma overdueDays_div: "overdueDays r d = - ((d - r) div 86400000)"
proof -
  have "overdueDays r d = \<lceil>real_of_int (r - d) / real_of_int 86400000\<rceil>"
    by (simp add: overdueDays_def)
  also have "\<dots> = - ((- (r - d)) div 86400000)"
    by (simp only: ceiling_divide_eq_div)
  finally show ?thesis by simp
qed

lemma overdueDays_pos: "d < r \<Longrightarrow> 0 < overdueDays r d"
  unfolding overdueDays_div by (simp add: div_neg_pos_less0 )

lemma overdueDays_one_day: "overdueDays (d + 1000 * 60 * 60 * 24) d = 1"
  unfolding overdueDays_div by simp


text \<open>
  What \<^verbatim>\<open>returnBook\<close> does on an issued loan, at a clock reading not before the issue date.
  On time: no fine, and the loan is stored as returned with \<open>fineAmount = 0\<close>. Late, with
  the borrower's record in place: exactly one fine, pending, with reason overdue and amount
  \<open>\<lceil>(now - dueDate) / 86400000\<rceil>\<close>, which is also the stored \<open>fineAmount\<close>. Late, with the
  borrower's record deleted: a \<^verbatim>\<open>TypeError\<close> and no write at all.
\<close>

lemma returnBook_on_time:
  assumes t: "findById t_id (transactions s) tid = Some t" and st: "t_status t = Issued"
    and clock: "t_issueDate t \<le> now" and due: "now \<le> t_dueDate t"
  shows "fines (snd (returnBook s tid ns staff now)) = fines s \<and>
         (\<exists>t'. findById t_id (transactions (snd (returnBook s tid ns staff now))) tid = Some t' \<and>
               t_status t' = Returned \<and> t_returnDate t' = Some now \<and> t_fineAmount t' = 0)"
proof -
  let ?t' = "t\<lparr>t_returnDate := Some now, t_status := Returned, t_fineAmount := 0,
                t_returnedBy := Some staff, t_notes := map_option trim ns\<rparr>"
  have id: "t_id ?t' = tid" using findById_Some[OF t] by simp
  have ok: "transaction_save_ok ?t'" using clock by (simp add: transaction_save_ok_def)
  have found: "findById t_id (store t_id ?t' (transactions s)) tid = Some ?t'"
    using findById_store[OF t id] .
  show ?thesis
    using t st due ok found
    by (simp add: returnBook_def Let_def split: option.splits)
qed

lemma returnBook_late:
  assumes t: "findById t_id (transactions s) tid = Some t" and st: "t_status t = Issued"
    and clock: "t_issueDate t \<le> now" and due: "t_dueDate t < now"
    and borrower: "findById u_id (users s) (t_userId t) \<noteq> None"
  shows "\<exists>f t'. fines (snd (returnBook s tid ns staff now)) = fines s @ [f] \<and>
           f_reason f = ReasonOverdue \<and> f_paymentStatus f = Pending \<and>
           f_userId f = t_userId t \<and> f_transactionId f = tid \<and>
           f_amount f = \<lceil>real_of_int (now - t_dueDate t) / 86400000\<rceil> \<and>
           findById t_id (transactions (snd (returnBook s tid ns staff now))) tid = Some t' \<and>
           t_status t' = Returned \<and> t_fineAmount t' = f_amount f"
proof -
  let ?a = "overdueDays now (t_dueDate t) * dailyRate"
  let ?t' = "t\<lparr>t_returnDate := Some now, t_status := Returned, t_fineAmount := ?a,
                t_returnedBy := Some staff, t_notes := map_option trim ns\<rparr>"
  have id: "t_id ?t' = tid" and id': "t_id t = tid" using findById_Some[OF t] by simp_all
  have amount: "?a = \<lceil>real_of_int (now - t_dueDate t) / 86400000\<rceil>"
    by (simp add: overdueDays_def dailyRate_def)
  have "0 \<le> ?a" using overdueDays_pos[OF due] by (simp add: dailyRate_def)
  then have ok: "transaction_save_ok ?t'" using clock by (simp add: transaction_save_ok_def)
  have found: "findById t_id (store t_id ?t' (transactions s)) tid = Some ?t'"
    using findById_store[OF t id] .
  show ?thesis
    using t st due ok found borrower id' amount
    by (simp add: returnBook_def Let_def split: option.splits)
qed

lemma returnBook_borrower_deleted:
  assumes "findById t_id (transactions s) tid = Some t" and "t_status t = Issued"
    and "t_dueDate t < now" and "findById u_id (users s) (t_userId t) = None"
  shows "returnBook s tid ns staff now = (Inl TypeError, s)"
  using assms by (simp add: returnBook_def Let_def)

lemmas returnBook_eval = returnBook_def findById_def store_def fresh_id_def overdueDays_div
  dailyRate_def transaction_save_ok_def book_save_ok_def Let_def

text \<open>
  C3. An issued loan whose borrower's user record has since been deleted, returned one day
  after its due date: \<^verbatim>\<open>returnBook\<close> throws while reading \<^verbatim>\<open>transaction.userId._id\<close>, before
  \<^verbatim>\<open>Fine.create\<close>, so no fine is created and nothing is written. With the borrower's record
  in place the same return creates the one fine of amount 1, and a return one millisecond
  later a fine of amount 2.
\<close>

theorem returnBook_deleted_borrower:
  "findById t_id (transactions orphaned) 1 = Some loan \<and> t_status loan = Issued \<and>
   t_dueDate loan + 1000 * 60 * 60 * 24 = 86402000 \<and>
   returnBook orphaned 1 None 9 86402000 = (Inl TypeError, orphaned) \<and>
   map f_amount (fines (snd (returnBook lending 1 None 9 86402000))) = [1] \<and>
   map f_amount (fines (snd (returnBook lending 1 None 9 86402001))) = [2]"
proof -
  have "findById t_id (transactions orphaned) 1 = Some loan" "t_status loan = Issued"
    "t_dueDate loan + 1000 * 60 * 60 * 24 = 86402000"
    by (simp_all add: findById_def orphaned_def lending_def library_def loan_def)
  moreover have "returnBook orphaned 1 None 9 86402000 = (Inl TypeError, orphaned)"
    by (simp add: returnBook_eval orphaned_def lending_def library_def loan_def bob_def)
  moreover have "map f_amount (fines (snd (returnBook lending 1 None 9 86402000))) = [1]"
    by (simp add: returnBook_eval lending_def library_def loan_def alice_def bob_def novel_def)
  moreover have "map f_amount (fines (snd (returnBook lending 1 None 9 86402001))) = [2]"
    by (simp add: returnBook_eval lending_def library_def loan_def alice_def bob_def novel_def)
  ultimately show ?thesis by simp
qed

section \<open>Issuing a loan\<close>

lemmas issue_unfold = issueBook_def borrower_active_def book_loanable_def
  no_open_loan_def below_limit_def open_loans_def pending_fines_def find_None_filter

text \<open>
  The state and the answer of a request whose preconditions all hold, for a book whose
  decremented count passes the validation of \<^verbatim>\<open>book.save()\<close>.
\<close>

lemma issueBook_success:
  assumes pre: "issue_preconditions s userId bookId"
    and b: "findById b_id (books s) bookId = Some book"
    and whole: "1 \<le> availableCopies book" and fits: "availableCopies book - 1 \<le> totalCopies book"
  shows "issueBook s userId bookId dueDate staff now =
     (Inr \<lparr> t_id = fresh_id t_id (transactions s), t_userId = userId,
             t_bookId = bookId, t_issueDate = now, t_dueDate = dueDate,
             t_returnDate = None, t_fineAmount = 0, t_status = Issued,
             t_issuedBy = staff, t_returnedBy = None, t_notes = None,
             t_createdAt = now, t_updatedAt = now \<rparr>,
      s\<lparr>transactions := transactions s @ [\<lparr> t_id = fresh_id t_id (transactions s), t_userId = userId,
             t_bookId = bookId, t_issueDate = now, t_dueDate = dueDate,
             t_returnDate = None, t_fineAmount = 0, t_status = Issued,
             t_issuedBy = staff, t_returnedBy = None, t_notes = None,
             t_createdAt = now, t_updatedAt = now \<rparr>],
         books := store b_id (book\<lparr>availableCopies := availableCopies book - 1\<rparr>) (books s)\<rparr>)"
proof -
  have "book_save_ok (book\<lparr>availableCopies := availableCopies book - 1\<rparr>)"
    using whole fits by (simp add: book_save_ok_def)
  then show ?thesis
    using pre b
    unfolding issue_preconditions_def other_preconditions_def issue_unfold
    by (auto simp: Let_def conj_commute conj_left_commute split: option.splits)
qed


text \<open>
  C4. When a precondition of \<^verbatim>\<open>issueBook\<close> fails (borrower missing or inactive, book missing
  or unavailable, an open loan of the same borrower and book, borrowing limit reached, a
  pending fine), the answer is an error that stands for a precondition that fails, and
  the database is exactly what it was: no transaction is created and no book is written.
\<close>

theorem issueBook_failure:
  assumes "\<not> issue_preconditions s userId bookId"
  shows "\<exists>e. issueBook s userId bookId dueDate staff now = (Inl e, s) \<and>
             precondition_failed s userId bookId e"
proof (cases "findById u_id (users s) userId")
  case None
  then have "issueBook s userId bookId dueDate staff now = (Inl UserNotFound, s)"
    and "precondition_failed s userId bookId UserNotFound"
    by (simp_all add: issueBook_def precondition_failed_def)
  then show ?thesis by blast
next
  case u: (Some user)
  show ?thesis
  proof (cases "findById b_id (books s) bookId")
    case None
    show ?thesis
    proof (cases "u_status user = UserActive")
      case True
      then have "issueBook s userId bookId dueDate staff now = (Inl BookNotFound, s)"
        and "precondition_failed s userId bookId BookNotFound"
        using u None by (simp_all add: issueBook_def precondition_failed_def)
      then show ?thesis by blast
    next
      case False
      then have "issueBook s userId bookId dueDate staff now = (Inl UserNotActive, s)"
        and "precondition_failed s userId bookId UserNotActive"
        using u by (simp_all add: issue_unfold precondition_failed_def)
      then show ?thesis by blast
    qed
  next
    case b: (Some book)
    let ?r = "issueBook s userId bookId dueDate staff now"
    have "?r = (Inl UserNotActive, s) \<and> precondition_failed s userId bookId UserNotActive
       \<or> ?r = (Inl BookNotAvailable, s) \<and> precondition_failed s userId bookId BookNotAvailable
       \<or> ?r = (Inl AlreadyIssued, s) \<and> precondition_failed s userId bookId AlreadyIssued
       \<or> ?r = (Inl (BorrowingLimitReached (borrowingLimit (u_role user))), s)
           \<and> precondition_failed s userId bookId (BorrowingLimitReached (borrowingLimit (u_role user)))
       \<or> ?r = (Inl OutstandingFines, s) \<and> precondition_failed s userId bookId OutstandingFines"
      using assms u b
      unfolding issue_preconditions_def other_preconditions_def precondition_failed_def issue_unfold
      by (auto simp: Let_def conj_commute conj_left_commute)
    then show ?thesis by blast
  qed
qed

theorem issueBook_failure_witness:
  "\<not> issue_preconditions lending 1 1 \<and>
   (\<exists>e. issueBook lending 1 1 5000 9 1500 = (Inl e, lending) \<and> precondition_failed lending 1 1 e)"
proof -
  have h: "\<not> issue_preconditions lending 1 1"
    by (simp add: issue_preconditions_def other_preconditions_def no_open_loan_def open_loans_def
        lending_def library_def loan_def)
  from issueBook_failure[OF h] h show ?thesis by blast
qed

text \<open>
  C6, as the code has it. When the other preconditions hold, \<^verbatim>\<open>issueBook\<close> answers the
  outstanding-fines error exactly when the borrower has at least one fine with payment
  status pending, whatever its amount; a non-zero outstanding total implies that; and once
  every fine of the borrower is paid or waived the request succeeds, if the book has
  \<open>1 \<le> availableCopies\<close> and \<open>availableCopies - 1 \<le> totalCopies\<close>, so that the decremented
  count passes the validation of \<^verbatim>\<open>book.save()\<close>.
\<close>

theorem issueBook_outstanding_fines:
  assumes other: "other_preconditions s userId bookId"
    and b: "findById b_id (books s) bookId = Some book"
  shows "(fst (issueBook s userId bookId dueDate staff now) = Inl OutstandingFines
            \<longleftrightarrow> pending_fines s userId \<noteq> []) \<and>
         (totalOutstanding s userId \<noteq> 0
            \<longrightarrow> fst (issueBook s userId bookId dueDate staff now) = Inl OutstandingFines) \<and>
         ((\<forall>f \<in> set (fines s). f_userId f = userId \<longrightarrow> f_paymentStatus f \<in> {Paid, Waived}) \<and>
          1 \<le> availableCopies book \<and> availableCopies book - 1 \<le> totalCopies book
            \<longrightarrow> (\<exists>t. fst (issueBook s userId bookId dueDate staff now) = Inr t))"
proof -
  let ?r = "fst (issueBook s userId bookId dueDate staff now)"
  have blocked: "?r = Inl OutstandingFines" if "pending_fines s userId \<noteq> []"
    using other that b
    unfolding other_preconditions_def issue_unfold
    by (auto simp: Let_def conj_commute conj_left_commute split: option.splits)
  have not_blocked: "?r \<noteq> Inl OutstandingFines" if "pending_fines s userId = []"
    using other that b
    unfolding other_preconditions_def issue_unfold
    by (auto simp: Let_def conj_commute conj_left_commute split: option.splits)
  have free: "\<exists>t. ?r = Inr t"
    if "pending_fines s userId = []" "1 \<le> availableCopies book"
      "availableCopies book - 1 \<le> totalCopies book"
    using issueBook_success[OF _ b that(2,3), of userId dueDate staff now] other that(1)
    by (simp add: issue_preconditions_def)
  have total: "pending_fines s userId \<noteq> []" if "totalOutstanding s userId \<noteq> 0"
    using that by (auto simp: totalOutstanding_def pending_fines_def)
  have settled: "pending_fines s userId = []"
    if "\<forall>f \<in> set (fines s). f_userId f = userId \<longrightarrow> f_paymentStatus f \<in> {Paid, Waived}"
    using that by (auto simp: pending_fines_def filter_empty_conv)
  show ?thesis
    using blocked not_blocked free total settled
    by (cases "pending_fines s userId = []") auto
qed

theorem issueBook_outstanding_fines_witness:
  "other_preconditions settled 1 1 \<and> findById b_id (books settled) 1 = Some novel \<and>
   pending_fines settled 1 = [] \<and>
   1 \<le> availableCopies novel \<and> availableCopies novel - 1 \<le> totalCopies novel \<and>
   (\<exists>t. fst (issueBook settled 1 1 5000 9 1500) = Inr t)"
proof -
  have h: "other_preconditions settled 1 1" "findById b_id (books settled) 1 = Some novel"
    "pending_fines settled 1 = []"
    "1 \<le> availableCopies novel" "availableCopies novel - 1 \<le> totalCopies novel"
    "\<forall>f \<in> set (fines settled). f_userId f = 1 \<longrightarrow> f_paymentStatus f \<in> {Paid, Waived}"
    by (simp_all add: other_preconditions_def borrower_active_def book_loanable_def
        no_open_loan_def below_limit_def open_loans_def pending_fines_def borrowingLimit_def
        findById_def settled_def paid_fine_def library_def alice_def bob_def novel_def)
  from issueBook_outstanding_fines[OF h(1,2), of 5000 9 1500] h show ?thesis by blast
qed

text \<open>
  The claim as the specification words it fails twice. A pending fine of amount 0 leaves
  the outstanding total at zero, and the request is refused all the same. And with no
  fine at all and every other precondition holding, the request for a book with half a
  copy available creates the loan and then fails in \<^verbatim>\<open>book.save()\<close>.
\<close>

theorem issueBook_zero_fine_counterexample:
  "other_preconditions zero_fine 1 1 \<and> totalOutstanding zero_fine 1 = 0 \<and>
   fst (issueBook zero_fine 1 1 5000 9 1500) = Inl OutstandingFines \<and>
   other_preconditions half_copy 1 1 \<and> fines half_copy = [] \<and>
   fst (issueBook half_copy 1 1 5000 9 1500) = Inl ValidationError"
  by (simp add: other_preconditions_def borrower_active_def book_loanable_def
      no_open_loan_def below_limit_def open_loans_def borrowingLimit_def totalOutstanding_def
      issueBook_def findById_def book_save_ok_def Let_def
      zero_fine_def half_copy_def paid_fine_def library_def alice_def bob_def novel_def)

text \<open>
  The round trip where the book has at least one whole copy available and counts in range:
  issuing at \<open>now1\<close> and returning the created loan at \<open>now2\<close> with
  \<open>now1 \<le> now2 \<le> dueDate\<close> succeeds twice, leaves the loan returned with \<open>fineAmount = 0\<close>,
  creates no fine, and the stored book is again what it was before the issue.
\<close>

lemma issue_then_return_same_day:
  assumes pre: "issue_preconditions s userId bookId"
    and b: "findById b_id (books s) bookId = Some book" and ok: "copies_ok book"
    and whole: "1 \<le> availableCopies book"
    and clock: "now1 \<le> now2" and due: "now2 \<le> dueDate"
  shows "\<exists>t s1 t' s2.
           issueBook s userId bookId dueDate staff now1 = (Inr t, s1) \<and>
           returnBook s1 (t_id t) ns staff2 now2 = (Inr (t', None), s2) \<and>
           t_status t' = Returned \<and> t_fineAmount t' = 0 \<and>
           findById t_id (transactions s2) (t_id t) = Some t' \<and>
           fines s2 = fines s \<and>
           findById b_id (books s2) bookId = Some book"
proof -
  let ?t = "\<lparr> t_id = fresh_id t_id (transactions s), t_userId = userId,
             t_bookId = bookId, t_issueDate = now1, t_dueDate = dueDate,
             t_returnDate = None, t_fineAmount = 0, t_status = Issued,
             t_issuedBy = staff, t_returnedBy = None, t_notes = None,
             t_createdAt = now1, t_updatedAt = now1 \<rparr>"
  let ?book1 = "book\<lparr>availableCopies := availableCopies book - 1\<rparr>"
  let ?s1 = "s\<lparr>transactions := transactions s @ [?t], books := store b_id ?book1 (books s)\<rparr>"
  let ?t' = "?t\<lparr>t_returnDate := Some now2, t_status := Returned, t_fineAmount := 0,
                t_returnedBy := Some staff2, t_notes := map_option trim ns\<rparr>"
  let ?s2 = "?s1\<lparr>transactions := store t_id ?t' (transactions ?s1),
                  books := store b_id book (store b_id ?book1 (books s))\<rparr>"
  have bid: "b_id book = bookId" using findById_Some[OF b] by simp
  have fits: "availableCopies book - 1 \<le> totalCopies book"
    using ok by (simp add: copies_ok_def)
  have issue: "issueBook s userId bookId dueDate staff now1 = (Inr ?t, ?s1)"
    by (rule issueBook_success[OF pre b whole fits])
  have t: "findById t_id (transactions ?s1) (t_id ?t) = Some ?t"
    using findById_append_fresh[of t_id ?t "transactions s"] by simp
  have b1: "findById b_id (books ?s1) bookId = Some ?book1"
    using findById_store[OF b, of ?book1] bid by simp
  have tok: "transaction_save_ok ?t'"
    using clock by (simp add: transaction_save_ok_def)
  have bok: "book_save_ok (?book1\<lparr>availableCopies := availableCopies ?book1 + 1\<rparr>)"
    using ok by (simp add: book_save_ok_def copies_ok_def)
  have ret: "returnBook ?s1 (t_id ?t) ns staff2 now2 = (Inr (?t', None), ?s2)"
    using t b1 tok bok due
    unfolding returnBook_def Let_def by auto
  have t': "findById t_id (transactions ?s2) (t_id ?t) = Some ?t'"
    using findById_store[OF t, of ?t'] by simp
  have b2: "findById b_id (books ?s2) bookId = Some book"
    using findById_store[of b_id "store b_id ?book1 (books s)" bookId ?book1 book] b1 bid by simp
  show ?thesis
    using issue ret t' b2 by (intro exI[of _ ?t] exI[of _ ?s1] exI[of _ ?t'] exI[of _ ?s2]) simp
qed

lemmas issue_eval = issueBook_def findById_def store_def fresh_id_def borrowingLimit_def
  book_save_ok_def Let_def

text \<open>
  C9. The novel is stored with half a copy available, of two. Every precondition of
  \<^verbatim>\<open>issueBook\<close> holds for Alice and the counts are in range, yet the request creates the
  loan and then fails in \<^verbatim>\<open>book.save()\<close>, which rejects the count \<open>-1/2\<close>; returning that
  loan the same day, before it is due, stores \<open>availableCopies = 3/2\<close>, not the \<open>1/2\<close> from
  before the issue. Started with one whole copy available, the same two requests end with
  one copy available again.
\<close>

theorem fractional_copy_round_trip:
  "issue_preconditions half_copy 1 1 \<and> copies_ok (novel\<lparr>availableCopies := 1 / 2\<rparr>) \<and>
   fst (issueBook half_copy 1 1 2000 9 1000) = Inl ValidationError \<and>
   map t_status (transactions (snd (issueBook half_copy 1 1 2000 9 1000))) = [Issued] \<and>
   map availableCopies (books (snd (issueBook half_copy 1 1 2000 9 1000))) = [1 / 2] \<and>
   map availableCopies
     (books (snd (returnBook (snd (issueBook half_copy 1 1 2000 9 1000)) 1 None 9 1500))) = [3 / 2] \<and>
   map availableCopies
     (books (snd (returnBook (snd (issueBook library 1 1 2000 9 1000)) 1 None 9 1500))) = [1]"
proof -
  have "issue_preconditions half_copy 1 1" "copies_ok (novel\<lparr>availableCopies := 1 / 2\<rparr>)"
    by (simp_all add: issue_preconditions_def other_preconditions_def borrower_active_def
        book_loanable_def no_open_loan_def below_limit_def open_loans_def pending_fines_def
        borrowingLimit_def copies_ok_def findById_def
        half_copy_def library_def alice_def bob_def novel_def)
  moreover have half: "issueBook half_copy 1 1 2000 9 1000 =
      (Inl ValidationError, half_copy\<lparr>transactions := [loan]\<rparr>)"
    by (simp add: issue_eval half_copy_def library_def alice_def bob_def novel_def loan_def)
  moreover have "map availableCopies
      (books (snd (returnBook (half_copy\<lparr>transactions := [loan]\<rparr>) 1 None 9 1500))) = [3 / 2]"
    by (simp add: returnBook_eval half_copy_def library_def loan_def novel_def)
  moreover have whole: "issueBook library 1 1 2000 9 1000 =
      (Inr loan, library\<lparr>transactions := [loan], books := [novel\<lparr>availableCopies := 0\<rparr>]\<rparr>)"
    by (simp add: issue_eval library_def alice_def bob_def novel_def loan_def)
  moreover have "map availableCopies
      (books (snd (returnBook (library\<lparr>transactions := [loan],
         books := [novel\<lparr>availableCopies := 0\<rparr>]\<rparr>) 1 None 9 1500))) = [1]"
    by (simp add: returnBook_eval library_def loan_def novel_def)
  ultimately show ?thesis
    by (simp add: half_copy_def library_def loan_def novel_def)
qed

section \<open>Extending a loan\<close>

text \<open>
  C10. For a stored loan with status issued (a valid document of its schema, as every stored
  loan is), \<^verbatim>\<open>extendDueDate\<close> succeeds for every date
  \<open>newDueDate\<close>, with no comparison to the clock or to the issue date; afterwards the
  stored loan has \<open>dueDate = newDueDate\<close> and is still issued, so it counts as overdue at
  once exactly when \<open>newDueDate\<close> is before the current time.
\<close>

theorem extendDueDate_any_date:
  assumes t: "findById t_id (transactions s) tid = Some t" and st: "t_status t = Issued"
    and stored: "transaction_save_ok t"
  shows "\<exists>s' t'. extendDueDate s tid newDueDate reason now = (Inr (tid, newDueDate), s') \<and>
           findById t_id (transactions s') tid = Some t' \<and>
           t_dueDate t' = newDueDate \<and> t_status t' = Issued \<and>
           is_overdue now t' = (newDueDate < now)"
proof -
  let ?t' = "t\<lparr>t_dueDate := newDueDate, t_notes := Some (trim (extension_note (t_notes t) reason)), t_updatedAt := now\<rparr>"
  have id: "t_id ?t' = tid" using findById_Some[OF t] by simp
  have ok: "transaction_save_ok ?t'"
    using stored by (simp add: transaction_save_ok_def split: option.splits)
  have found: "findById t_id (store t_id ?t' (transactions s)) tid = Some ?t'"
    using findById_store[OF t id] .
  have id': "t_id t = tid" using findById_Some[OF t] by simp
  have run: "extendDueDate s tid newDueDate reason now =
      (Inr (tid, newDueDate), s\<lparr>transactions := store t_id ?t' (transactions s)\<rparr>)"
    unfolding extendDueDate_def Let_def t using st ok id' by simp
  show ?thesis
    unfolding run using found st by (simp add: is_overdue_def)
qed

theorem extendDueDate_any_date_witness:
  "findById t_id (transactions lending) 1 = Some loan \<and> t_status loan = Issued \<and>
   transaction_save_ok loan \<and> 500 < t_issueDate loan \<and>
   (\<exists>s' t'. extendDueDate lending 1 500 ''typo'' 1500 = (Inr (1, 500), s') \<and>
      findById t_id (transactions s') 1 = Some t' \<and>
      t_dueDate t' = 500 \<and> t_status t' = Issued \<and> is_overdue 1500 t')"
proof -
  have h: "findById t_id (transactions lending) 1 = Some loan" "t_status loan = Issued"
    "transaction_save_ok loan" "500 < t_issueDate loan"
    by (simp_all add: transaction_save_ok_def findById_def lending_def library_def loan_def)
  from extendDueDate_any_date[OF h(1-3), of 500 "''typo''" 1500] h show ?thesis by auto
qed

section \<open>Fines that are settled\<close>

text \<open>
  C8, as the code has it. On a stored fine whose payment status is paid, each of
  \<^verbatim>\<open>processFinePayment\<close>, \<^verbatim>\<open>waiveFine\<close>, \<^verbatim>\<open>updateFine\<close> and \<^verbatim>\<open>deleteFine\<close> answers an error
  and leaves the database as it was, so the fine stays stored and unchanged. On a fine
  whose payment status is waived, \<^verbatim>\<open>processFinePayment\<close> and \<^verbatim>\<open>waiveFine\<close> do the same;
  \<^verbatim>\<open>updateFine\<close> and \<^verbatim>\<open>deleteFine\<close> test for paid only.
\<close>

theorem settled_fine_frozen:
  assumes "findById f_id (fines s) fid = Some fine"
  shows "(f_paymentStatus fine = Paid \<longrightarrow>
            processFinePayment s fid method ns staff now = (Inl FineAlreadyPaid, s) \<and>
            waiveFine s fid reason staff now = (Inl CannotWaivePaidFine, s) \<and>
            updateFine s fid amount r ns' now = (Inl CannotUpdatePaidFine, s) \<and>
            deleteFine s fid = (Inl CannotDeletePaidFine, s)) \<and>
         (f_paymentStatus fine = Waived \<longrightarrow>
            processFinePayment s fid method ns staff now = (Inl FineHasBeenWaived, s) \<and>
            waiveFine s fid reason staff now = (Inl FineAlreadyWaived, s))"
  using assms
  by (simp add: processFinePayment_def waiveFine_def updateFine_def deleteFine_def)

theorem settled_fine_frozen_witness:
  "findById f_id (fines settled) 1 = Some paid_fine \<and> f_paymentStatus paid_fine = Paid \<and>
   processFinePayment settled 1 (Some Card) None 9 1000 = (Inl FineAlreadyPaid, settled) \<and>
   waiveFine settled 1 ''goodwill'' 9 1000 = (Inl CannotWaivePaidFine, settled) \<and>
   updateFine settled 1 (Some 0) None None 1000 = (Inl CannotUpdatePaidFine, settled) \<and>
   deleteFine settled 1 = (Inl CannotDeletePaidFine, settled)"
proof -
  have h: "findById f_id (fines settled) 1 = Some paid_fine" "f_paymentStatus paid_fine = Paid"
    by (simp_all add: findById_def settled_def paid_fine_def)
  from settled_fine_frozen[OF h(1), of "Some Card" None 9 1000 "''goodwill''" "Some 0" None None] h
  show ?thesis by simp
qed

text \<open>
  The claim as the specification words it fails for a waived fine: \<^verbatim>\<open>updateFine\<close> rewrites
  its amount and reason, and \<^verbatim>\<open>deleteFine\<close> removes it.
\<close>

theorem waived_fine_counterexample:
  "findById f_id (fines forgiven) 1 = Some waived_fine \<and> f_paymentStatus waived_fine = Waived \<and>
   f_amount waived_fine = 5 \<and> f_reason waived_fine = ReasonOverdue \<and>
   updateFine forgiven 1 (Some 7) (Some ReasonDamage) None 1000 =
     (Inr (waived_fine\<lparr>f_amount := 7, f_reason := ReasonDamage, f_updatedAt := 1000\<rparr>),
      forgiven\<lparr>fines := [waived_fine\<lparr>f_amount := 7, f_reason := ReasonDamage, f_updatedAt := 1000\<rparr>]\<rparr>) \<and>
   deleteFine forgiven 1 = (Inr (), forgiven\<lparr>fines := []\<rparr>)"
  by (simp add: updateFine_def deleteFine_def findById_def store_def fine_pre_save_def
      fine_save_ok_def truthy_def Let_def forgiven_def waived_fine_def paid_fine_def library_def)

section \<open>Reservations\<close>

lemmas example_defs = library_def alice_def bob_def novel_def rare_def queue0_def

lemmas reservation_eval = createReservation_def autoExpireReservations_def findById_def
  fresh_id_def reservationLimit_def reservation_save_ok_def Let_def

text \<open>
  C7, as the code has it. For a stored book, \<^verbatim>\<open>createReservation\<close> answers the
  book-is-available error, without writing, whenever the book has more than zero available
  copies and its status is \<^verbatim>\<open>available\<close>; it never answers that error otherwise, in
  particular not when the book has zero available copies.
\<close>

theorem createReservation_book_available:
  assumes "findById b_id (books s) bookId = Some book"
  shows "(0 < availableCopies book \<and> b_status book = Available \<longrightarrow>
            createReservation s userId userRole bookId expiryDate now = (Inl BookCurrentlyAvailable, s)) \<and>
         (\<not> (0 < availableCopies book \<and> b_status book = Available) \<longrightarrow>
            fst (createReservation s userId userRole bookId expiryDate now) \<noteq> Inl BookCurrentlyAvailable)"
  using assms by (simp add: createReservation_def Let_def)

theorem createReservation_book_available_witness:
  "findById b_id (books queue0) 1 = Some rare \<and> availableCopies rare = 0 \<and>
   fst (createReservation queue0 1 Borrower 1 2000 1000) \<noteq> Inl BookCurrentlyAvailable \<and>
   findById b_id (books library) 1 = Some novel \<and> 0 < availableCopies novel \<and>
   b_status novel = Available \<and>
   createReservation library 1 Borrower 1 2000 1000 = (Inl BookCurrentlyAvailable, library)"
proof -
  have h: "findById b_id (books queue0) 1 = Some rare" "availableCopies rare = 0"
    "findById b_id (books library) 1 = Some novel" "0 < availableCopies novel"
    "b_status novel = Available"
    by (simp_all add: findById_def example_defs)
  from createReservation_book_available[OF h(1), of 1 Borrower 2000 1000]
    createReservation_book_available[OF h(3), of 1 Borrower 2000 1000] h
  show ?thesis by simp
qed

text \<open>
  The claim as the specification words it fails: a book under maintenance with one available
  copy is reserved.
\<close>

theorem createReservation_maintenance_counterexample:
  "findById b_id (books workshop) 1 = Some (novel\<lparr>b_status := Maintenance\<rparr>) \<and>
   0 < availableCopies (novel\<lparr>b_status := Maintenance\<rparr>) \<and>
   createReservation workshop 1 Borrower 1 2000 1000 =
     (Inr (\<lparr> r_id = 1, r_userId = 1,
                      r_bookId = 1, r_reservationDate = 1000, r_expiryDate = 2000,
                      r_status = Active, r_priority = 1, r_notificationSent = False,
                      r_fulfilledBy = None, r_fulfilledDate = None, r_notes = None,
                      r_createdAt = 1000, r_updatedAt = 1000 \<rparr>, 1),
      workshop\<lparr>reservations := [\<lparr> r_id = 1, r_userId = 1,
                      r_bookId = 1, r_reservationDate = 1000, r_expiryDate = 2000,
                      r_status = Active, r_priority = 1, r_notificationSent = False,
                      r_fulfilledBy = None, r_fulfilledDate = None, r_notes = None,
                      r_createdAt = 1000, r_updatedAt = 1000 \<rparr>]\<rparr>)"
  by (simp add: reservation_eval example_defs workshop_def)

text \<open>The reservation queue of the example, step by step.\<close>

lemma reservations_queue1:
  "reservations queue1 = [\<lparr> r_id = 1, r_userId = 1,
      r_bookId = 1, r_reservationDate = 1000, r_expiryDate = 2000,
      r_status = Active, r_priority = 1, r_notificationSent = False,
      r_fulfilledBy = None, r_fulfilledDate = None, r_notes = None,
      r_createdAt = 1000, r_updatedAt = 1000 \<rparr>]"
  "books queue1 = [rare]" "transactions queue1 = []"
  by (simp_all add: queue1_def reservation_eval example_defs)

lemma reservations_queue2:
  "reservations queue2 = [\<lparr> r_id = 1, r_userId = 1,
      r_bookId = 1, r_reservationDate = 1000, r_expiryDate = 2000,
      r_status = Active, r_priority = 1, r_notificationSent = False,
      r_fulfilledBy = None, r_fulfilledDate = None, r_notes = None,
      r_createdAt = 1000, r_updatedAt = 1000 \<rparr>,
    \<lparr> r_id = 2, r_userId = 2,
      r_bookId = 1, r_reservationDate = 1100, r_expiryDate = 9000,
      r_status = Active, r_priority = 2, r_notificationSent = False,
      r_fulfilledBy = None, r_fulfilledDate = None, r_notes = None,
      r_createdAt = 1100, r_updatedAt = 1100 \<rparr>]"
  "books queue2 = [rare]" "transactions queue2 = []"
  by (simp_all add: queue2_def reservations_queue1 reservation_eval rare_def)

lemma reservations_queue3:
  "reservations queue3 = [\<lparr> r_id = 1, r_userId = 1,
      r_bookId = 1, r_reservationDate = 1000, r_expiryDate = 2000,
      r_status = Expired, r_priority = 1, r_notificationSent = False,
      r_fulfilledBy = None, r_fulfilledDate = None, r_notes = None,
      r_createdAt = 1000, r_updatedAt = 3000 \<rparr>,
    \<lparr> r_id = 2, r_userId = 2,
      r_bookId = 1, r_reservationDate = 1100, r_expiryDate = 9000,
      r_status = Active, r_priority = 2, r_notificationSent = False,
      r_fulfilledBy = None, r_fulfilledDate = None, r_notes = None,
      r_createdAt = 1100, r_updatedAt = 1100 \<rparr>]"
  "books queue3 = [rare]" "transactions queue3 = []"
  by (simp_all add: queue3_def reservations_queue2 reservation_eval)

text \<open>
  C2. Starting from no reservations, two \<^verbatim>\<open>createReservation\<close> requests give the book's
  active reservations the priorities 1 and 2. When \<^verbatim>\<open>cancelReservation\<close> removes the first,
  the remaining one is renumbered to 1. When \<^verbatim>\<open>autoExpireReservations\<close> removes the first
  instead, the remaining active reservation keeps priority 2, so the priorities are no
  longer \<open>1..N\<close>; a further \<^verbatim>\<open>createReservation\<close> then assigns priority 2 a second time.
\<close>

theorem autoExpire_leaves_gap:
  "priorities_contiguous queue2 1 \<and>
   active_priorities (snd (cancelReservation queue2 1 1 Borrower 3000)) 1 = [1] \<and>
   active_priorities queue3 1 = [2] \<and>
   \<not> priorities_contiguous queue3 1 \<and>
   active_priorities (snd (createReservation queue3 1 Borrower 1 9000 3500)) 1 = [2, 2]"
proof -
  have "priorities_contiguous queue2 1"
    by (simp add: priorities_contiguous_def active_priorities_def reservations_queue2 upto.simps)
  moreover have "active_priorities (snd (cancelReservation queue2 1 1 Borrower 3000)) 1 = [1]"
    by (simp add: active_priorities_def cancelReservation_def updateReservationPriorities_def
        reservations_queue2 findById_def store_def reservation_save_ok_def Let_def)
  moreover have "active_priorities queue3 1 = [2]"
    by (simp add: active_priorities_def reservations_queue3)
  moreover have "\<not> priorities_contiguous queue3 1"
    by (simp add: priorities_contiguous_def active_priorities_def reservations_queue3 upto.simps)
  moreover have "active_priorities (snd (createReservation queue3 1 Borrower 1 9000 3500)) 1 = [2, 2]"
    by (simp add: active_priorities_def reservations_queue3 reservation_eval rare_def)
  ultimately show ?thesis by simp
qed

text \<open>
  C5. After \<^verbatim>\<open>autoExpireReservations\<close> no reservation is both active and past its expiry
  date. The priority of every stored reservation is what it was before the call, though:
  nothing is re-ranked, and in the example the remaining active reservation of the affected
  book keeps priority 2.
\<close>

theorem autoExpire_keeps_priorities:
  "filter (\<lambda>r. r_status r = Active \<and> r_expiryDate r < now)
     (reservations (snd (autoExpireReservations s now))) = [] \<and>
   map r_priority (reservations (snd (autoExpireReservations s now))) = map r_priority (reservations s) \<and>
   active_priorities (snd (autoExpireReservations queue2 3000)) 1 = [2]"
proof -
  have "filter (\<lambda>r. r_status r = Active \<and> r_expiryDate r < now)
     (reservations (snd (autoExpireReservations s now))) = []"
    by (auto simp: autoExpireReservations_def filter_empty_conv)
  moreover have "map r_priority (reservations (snd (autoExpireReservations s now))) =
      map r_priority (reservations s)"
    by (simp add: autoExpireReservations_def)
  moreover have "active_priorities (snd (autoExpireReservations queue2 3000)) 1 = [2]"
    by (simp add: active_priorities_def reservations_queue2 autoExpireReservations_def)
  ultimately show ?thesis by simp
qed

end
